theory Spec2Isabelle
  imports Main
begin

section \<open>Python values\<close>

text \<open>
  A Python \<open>str\<close> is a sequence of Unicode code points, and \<open>len\<close> counts code points,
  so a \<open>str\<close> is a list of natural numbers. The contents of a file are bytes.
  \<open>py\<close> turns an ASCII literal into the \<open>str\<close> with the same characters.
\<close>

type_synonym pystr = "nat list"
type_synonym bytes = "char list"

definition py :: "string \<Rightarrow> pystr" where
  "py s = map of_char s"

definition SP :: nat where "SP = 32"
definition LF :: nat where "LF = 10"
definition CR :: nat where "CR = 13"
definition COMMA :: nat where "COMMA = 44"
definition DQUOTE :: nat where "DQUOTE = 34"

text \<open>\<open>s.replace(c, "")\<close> for a one-character \<open>c\<close>: every occurrence of \<open>c\<close> is deleted.\<close>

definition replace_with_empty :: "pystr \<Rightarrow> nat \<Rightarrow> pystr" where
  "replace_with_empty s c = filter (\<lambda>x. x \<noteq> c) s"

text \<open>
  \<open>xs[a:b]\<close> for integers \<open>a\<close> and \<open>b\<close>: a negative index counts from the end, and
  both indices are clamped to the range of the sequence.
\<close>

definition slice_index :: "nat \<Rightarrow> int \<Rightarrow> nat" where
  "slice_index n a = (if a < 0 then nat (max (a + int n) 0) else min (nat a) n)"

definition py_slice :: "'a list \<Rightarrow> int \<Rightarrow> int \<Rightarrow> 'a list" where
  "py_slice xs a b =
     (let lo = slice_index (length xs) a; hi = slice_index (length xs) b
      in take (hi - lo) (drop lo xs))"

text \<open>\<open>s.ljust(w)\<close> and \<open>s.rjust(w)\<close>: pad with spaces up to the width \<open>w\<close>.\<close>

definition ljust :: "pystr \<Rightarrow> int \<Rightarrow> pystr" where
  "ljust s w = s @ replicate (nat (w - int (length s))) SP"

definition rjust :: "pystr \<Rightarrow> int \<Rightarrow> pystr" where
  "rjust s w = replicate (nat (w - int (length s))) SP @ s"

section \<open>Text files read with universal newlines\<close>

text \<open>
  \<open>open(name, "r", newline=None)\<close> translates \<open>"\r\n"\<close> and a lone \<open>"\r"\<close> to
  \<open>"\n"\<close>; iterating over the file yields the text cut after every \<open>"\n"\<close>, each line
  with its \<open>"\n"\<close>, and a last line without one when the text does not end in \<open>"\n"\<close>.
\<close>

fun universal_newlines :: "pystr \<Rightarrow> pystr" where
  "universal_newlines [] = []"
| "universal_newlines [c] = (if c = CR then [LF] else [c])"
| "universal_newlines (c # d # s) =
     (if c = CR \<and> d = LF then LF # universal_newlines s
      else if c = CR then LF # universal_newlines (d # s)
      else c # universal_newlines (d # s))"

fun iter_lines :: "pystr \<Rightarrow> pystr \<Rightarrow> pystr list" where
  "iter_lines cur [] = (if cur = [] then [] else [cur])"
| "iter_lines cur (c # s) =
     (if c = LF then (cur @ [LF]) # iter_lines [] s else iter_lines (cur @ [c]) s)"

definition file_lines :: "pystr \<Rightarrow> pystr list" where
  "file_lines txt = iter_lines [] (universal_newlines txt)"

section \<open>Errors\<close>

datatype error =
    FileNotFoundError pystr
  | JSONDecodeError
  | ValueError pystr
  | UnicodeDecodeError
  | UnicodeEncodeError

section \<open>Slicing a fixed-width line\<close>

text \<open>
  The list comprehension of \<open>parse_fixed_width_file\<close>:
  \<^verbatim>\<open>[line[sum(offsets[0:i]) : sum(offsets[0:i]) + offset].replace(" ", "")
     for i, offset in enumerate(offsets)]\<close>
\<close>

definition line_data :: "int list \<Rightarrow> pystr \<Rightarrow> pystr list" where
  "line_data offsets line =
     map (\<lambda>(i, offset).
            replace_with_empty
              (py_slice line (sum_list (take i offsets)) (sum_list (take i offsets) + offset))
              SP)
         (enumerate 0 offsets)"

definition width_message :: pystr where
  "width_message = py ''One or more fields are of incorrect length''"

text \<open>
  The body of \<open>for line in f\<close> after the newline is removed, for one logical line:
  the length check, then the slicing.
\<close>

definition parse_line :: "int list \<Rightarrow> pystr \<Rightarrow> error + pystr list" where
  "parse_line offsets line =
     (if int (length line) \<noteq> sum_list offsets then Inl (ValueError width_message)
      else Inr (line_data offsets line))"

text \<open>
  The loop \<open>for line in f\<close> over the lines the file yields, with the accumulator
  \<open>delimited_data\<close>. The first line of the wrong length raises and the loop is left.
\<close>

fun parse_lines :: "int list \<Rightarrow> pystr list \<Rightarrow> pystr list list \<Rightarrow> error + pystr list list" where
  "parse_lines offsets [] delimited_data = Inr delimited_data"
| "parse_lines offsets (raw # rest) delimited_data =
     (case parse_line offsets (replace_with_empty raw LF) of
        Inl e \<Rightarrow> Inl e
      | Inr fields \<Rightarrow> parse_lines offsets rest (delimited_data @ [fields]))"

section \<open>The runtime and the file system\<close>

text \<open>
  The specification document \<open>spec.json\<close>, as \<open>json.load\<close> returns it: an object with
  the five keys the program reads. An entry of \<open>Offsets\<close> is a JSON integer or a JSON
  string; the program applies \<open>int\<close> to it.
\<close>

datatype offset_literal = JInt int | JStr pystr

record spec_doc =
  ColumnNames :: "pystr list"
  Offsets :: "offset_literal list"
  IncludeHeader :: pystr
  FixedWidthEncoding :: pystr
  DelimitedEncoding :: pystr

text \<open>
  What the program takes from Python's library and from the host, as parameters:
  the JSON parser, \<open>int\<close> on a string, the codecs by name, and \<open>os.linesep\<close>.
\<close>

record runtime =
  json_load :: "bytes \<Rightarrow> error + spec_doc"
  int_of_str :: "pystr \<Rightarrow> error + int"
  decode :: "pystr \<Rightarrow> bytes \<Rightarrow> error + pystr"
  encode :: "pystr \<Rightarrow> pystr \<Rightarrow> error + bytes"
  linesep :: pystr

text \<open>
  The file system maps a file name to the bytes of the file. \<open>io_log\<close> records, in
  order, every file that was opened and every text handed to \<open>write\<close>.
  Opening a file for writing creates or truncates it; the model has no permissions,
  so that always succeeds.
\<close>

datatype event = OpenRead pystr | OpenWrite pystr | WriteText pystr pystr

record world =
  files :: "pystr \<Rightarrow> bytes option"
  io_log :: "event list"

definition open_read :: "world \<Rightarrow> pystr \<Rightarrow> (error + bytes) \<times> world" where
  "open_read w name =
     (case files w name of
        None \<Rightarrow> (Inl (FileNotFoundError name), w)
      | Some bs \<Rightarrow> (Inr bs, w\<lparr>io_log := io_log w @ [OpenRead name]\<rparr>))"

definition open_write :: "world \<Rightarrow> pystr \<Rightarrow> world" where
  "open_write w name = w\<lparr>files := (files w)(name \<mapsto> []), io_log := io_log w @ [OpenWrite name]\<rparr>"

definition file_write :: "runtime \<Rightarrow> pystr \<Rightarrow> pystr \<Rightarrow> pystr \<Rightarrow> world \<Rightarrow> (error + unit) \<times> world" where
  "file_write rt name encoding text w =
     (case encode rt encoding text of
        Inl e \<Rightarrow> (Inl e, w)
      | Inr bs \<Rightarrow>
          (Inr (),
           w\<lparr>files := (files w)(name \<mapsto> (case files w name of None \<Rightarrow> bs | Some old \<Rightarrow> old @ bs)),
             io_log := io_log w @ [WriteText name text]\<rparr>))"

section \<open>EncodingProperties\<close>

record EncodingProperties =
  spec_filename :: pystr
  fixed_width_filename :: pystr
  delimited_filename :: pystr
  delimited_newline :: "pystr option"
  column_names :: "pystr list"
  offsets :: "int list"
  fixed_width_encoding :: pystr
  delimited_encoding :: pystr
  include_header :: bool

fun py_int :: "runtime \<Rightarrow> offset_literal \<Rightarrow> error + int" where
  "py_int rt (JInt n) = Inr n"
| "py_int rt (JStr s) = int_of_str rt s"

text \<open>\<open>list(map(int, xs))\<close>: the first element that \<open>int\<close> refuses raises.\<close>

fun map_int :: "runtime \<Rightarrow> offset_literal list \<Rightarrow> error + int list" where
  "map_int rt [] = Inr []"
| "map_int rt (x # xs) =
     (case py_int rt x of
        Inl e \<Rightarrow> Inl e
      | Inr n \<Rightarrow> (case map_int rt xs of Inl e \<Rightarrow> Inl e | Inr ns \<Rightarrow> Inr (n # ns)))"

text \<open>\<open>f"{v}"\<close> for a value that is \<open>None\<close> or a \<open>str\<close>.\<close>

fun format_value :: "pystr option \<Rightarrow> pystr" where
  "format_value None = py ''None''"
| "format_value (Some s) = s"

definition newline_message :: "pystr option \<Rightarrow> pystr" where
  "newline_message v = py ''Illegal newline value: '' @ format_value v"

definition mismatch_message :: pystr where
  "mismatch_message = py ''The number of column names and offsets do not match''"

definition fixed_width_encoding_message :: "pystr \<Rightarrow> pystr" where
  "fixed_width_encoding_message v =
     v @ py '' is either not a valid encoding, or it has not been implemented.''"

definition delimited_encoding_message :: "pystr \<Rightarrow> pystr" where
  "delimited_encoding_message v =
     v @ py '' is either not a valid encoding or it has not been implemented.''"

text \<open>
  \<open>EncodingProperties.__init__\<close>. The result is the constructed object, or the
  exception raised; the world is returned with what was opened.
\<close>

definition EncodingProperties_init ::
  "runtime \<Rightarrow> world \<Rightarrow> pystr \<Rightarrow> pystr \<Rightarrow> pystr \<Rightarrow> pystr option
     \<Rightarrow> (error + EncodingProperties) \<times> world" where
  "EncodingProperties_init rt w spec_filename' fixed_width_filename' delimited_filename'
       delimited_newline' =
     (let self = \<lparr> spec_filename = spec_filename',
                   fixed_width_filename = fixed_width_filename',
                   delimited_filename = delimited_filename',
                   delimited_newline = delimited_newline',
                   column_names = [], offsets = [],
                   fixed_width_encoding = [], delimited_encoding = [],
                   include_header = False \<rparr>
      in case open_read w spec_filename' of
           (Inl e, w1) \<Rightarrow> (Inl e, w1)
         | (Inr bs, w1) \<Rightarrow>
            (case json_load rt bs of
               Inl e \<Rightarrow> (Inl e, w1)
             | Inr spec \<Rightarrow>
                if delimited_newline' \<notin> {None, Some [], Some [LF], Some [CR, LF], Some [CR]}
                then (Inl (ValueError (newline_message delimited_newline')), w1)
                else
                  (let self = self\<lparr>column_names := ColumnNames spec\<rparr> in
                   case map_int rt (Offsets spec) of
                     Inl e \<Rightarrow> (Inl e, w1)
                   | Inr ints \<Rightarrow>
                      (let self = self\<lparr>offsets := ints\<rparr> in
                       if length (column_names self) \<noteq> length (offsets self)
                       then (Inl (ValueError mismatch_message), w1)
                       else
                         (let self = self\<lparr>include_header := (IncludeHeader spec = py ''True'')\<rparr> in
                          if FixedWidthEncoding spec \<noteq> py ''windows-1252''
                          then (Inl (ValueError
                                  (fixed_width_encoding_message (FixedWidthEncoding spec))), w1)
                          else
                            (let self = self\<lparr>fixed_width_encoding := py ''cp1252''\<rparr> in
                             if DelimitedEncoding spec \<noteq> py ''utf-8''
                             then (Inl (ValueError
                                     (delimited_encoding_message (DelimitedEncoding spec))), w1)
                             else (Inr (self\<lparr>delimited_encoding := py ''UTF-8''\<rparr>), w1)))))))"

section \<open>DelimitedFileWriter\<close>

record DelimitedFileWriter =
  encoding_props :: EncodingProperties

text \<open>
  \<open>parse_fixed_width_file\<close>. The file is decoded as a whole when it is opened, so a
  byte the codec refuses raises before any line is looked at; the statements below
  about lines are about files that decode. The method returns the records or the
  exception, the object and the world.
\<close>

definition parse_fixed_width_file ::
  "runtime \<Rightarrow> DelimitedFileWriter \<Rightarrow> world
     \<Rightarrow> (error + pystr list list) \<times> DelimitedFileWriter \<times> world" where
  "parse_fixed_width_file rt self w =
     (let fw_filename = fixed_width_filename (encoding_props self);
          fw_encoding = fixed_width_encoding (encoding_props self);
          offs = offsets (encoding_props self)
      in case open_read w fw_filename of
           (Inl e, w1) \<Rightarrow> (Inl e, self, w1)
         | (Inr bs, w1) \<Rightarrow>
            (case decode rt fw_encoding bs of
               Inl e \<Rightarrow> (Inl e, self, w1)
             | Inr txt \<Rightarrow> (parse_lines offs (file_lines txt) [], self, w1)))"

subsection \<open>csv.writer\<close>

text \<open>
  \<open>csv.writer(f, delimiter=",", lineterminator=t)\<close> with the other settings of the
  default dialect: a field is quoted when it holds the delimiter, the quote character
  or a character of the line terminator, a quote character inside a quoted field is
  doubled, and a row of one empty field is written as two quote characters.
  \<open>writerow\<close> hands the row and the line terminator to \<open>f.write\<close> as one text.
  This is the rule the module documents for the Python versions the program was
  written for; versions differ on a field that holds a NUL character, or a carriage
  return or line feed that is not part of the terminator.
\<close>

definition needs_quotes :: "pystr \<Rightarrow> pystr \<Rightarrow> bool" where
  "needs_quotes lineterminator field =
     list_ex (\<lambda>c. c = COMMA \<or> c = DQUOTE \<or> c \<in> set lineterminator) field"

definition csv_field :: "pystr \<Rightarrow> pystr \<Rightarrow> pystr" where
  "csv_field lineterminator field =
     (if needs_quotes lineterminator field
      then [DQUOTE] @ concat (map (\<lambda>c. if c = DQUOTE then [DQUOTE, DQUOTE] else [c]) field)
             @ [DQUOTE]
      else field)"

fun join_fields :: "pystr list \<Rightarrow> pystr" where
  "join_fields [] = []"
| "join_fields [f] = f"
| "join_fields (f # g # fs) = f @ [COMMA] @ join_fields (g # fs)"

definition csv_record :: "pystr \<Rightarrow> pystr list \<Rightarrow> pystr" where
  "csv_record lineterminator row =
     (if row = [[]] then [DQUOTE, DQUOTE]
      else join_fields (map (csv_field lineterminator) row))"

definition writerow ::
  "runtime \<Rightarrow> pystr \<Rightarrow> pystr \<Rightarrow> pystr \<Rightarrow> pystr list \<Rightarrow> world \<Rightarrow> (error + unit) \<times> world" where
  "writerow rt name encoding lineterminator row w =
     file_write rt name encoding (csv_record lineterminator row @ lineterminator) w"

text \<open>\<open>for line in delimited_data: writer.writerow(line)\<close>\<close>

fun write_rows ::
  "runtime \<Rightarrow> pystr \<Rightarrow> pystr \<Rightarrow> pystr \<Rightarrow> pystr list list \<Rightarrow> world \<Rightarrow> (error + unit) \<times> world" where
  "write_rows rt name encoding lineterminator [] w = (Inr (), w)"
| "write_rows rt name encoding lineterminator (line # rest) w =
     (case writerow rt name encoding lineterminator line w of
        (Inl e, w1) \<Rightarrow> (Inl e, w1)
      | (Inr u, w1) \<Rightarrow> write_rows rt name encoding lineterminator rest w1)"

text \<open>
  The line terminator \<open>generate_delimited_file\<close> gives to the writer: a local
  variable, set to \<open>os.linesep\<close> when the stored value is \<open>None\<close> or empty, and left
  as it is in every other branch.
\<close>

definition resolve_newline :: "runtime \<Rightarrow> pystr option \<Rightarrow> pystr" where
  "resolve_newline rt nl =
     (case nl of
        None \<Rightarrow> linesep rt
      | Some s \<Rightarrow>
          if s = [] then linesep rt
          else if s = [LF] then s
          else if s = [CR] then s
          else if s = [CR, LF] then s
          else s)"

definition generate_delimited_file ::
  "runtime \<Rightarrow> DelimitedFileWriter \<Rightarrow> world \<Rightarrow> pystr list list
     \<Rightarrow> (error + unit) \<times> DelimitedFileWriter \<times> world" where
  "generate_delimited_file rt self w delimited_data =
     (let d_filename = delimited_filename (encoding_props self);
          d_encoding = delimited_encoding (encoding_props self);
          d_newline = delimited_newline (encoding_props self);
          header_wanted = include_header (encoding_props self);
          w1 = open_write w d_filename;
          d_newline = resolve_newline rt d_newline
      in if header_wanted
         then (case writerow rt d_filename d_encoding d_newline
                      (column_names (encoding_props self)) w1 of
                 (Inl e, w2) \<Rightarrow> (Inl e, self, w2)
               | (Inr u, w2) \<Rightarrow>
                   (case write_rows rt d_filename d_encoding d_newline delimited_data w2 of
                      (r, w3) \<Rightarrow> (r, self, w3)))
         else (case write_rows rt d_filename d_encoding d_newline delimited_data w1 of
                 (r, w3) \<Rightarrow> (r, self, w3)))"

section \<open>The calls in sequence\<close>

text \<open>
  What the tests do in \<open>setUp\<close>: construct the properties, construct the writer
  from them, parse the fixed-width file and generate the delimited file from the
  records. An exception of any step ends the run.
\<close>

definition run_pipeline ::
  "runtime \<Rightarrow> world \<Rightarrow> pystr \<Rightarrow> pystr \<Rightarrow> pystr \<Rightarrow> pystr option \<Rightarrow> (error + unit) \<times> world" where
  "run_pipeline rt w spec_name fixed_width_name delimited_name newline =
     (case EncodingProperties_init rt w spec_name fixed_width_name delimited_name newline of
        (Inl e, w1) \<Rightarrow> (Inl e, w1)
      | (Inr props, w1) \<Rightarrow>
          (let delimited = \<lparr> encoding_props = props \<rparr> in
           case parse_fixed_width_file rt delimited w1 of
             (Inl e, delimited, w2) \<Rightarrow> (Inl e, w2)
           | (Inr delimited_data, delimited, w2) \<Rightarrow>
               (case generate_delimited_file rt delimited w2 delimited_data of
                  (r, delimited, w3) \<Rightarrow> (r, w3))))"

section \<open>Example configurations\<close>

text \<open>
  Runtimes and file systems to run the program on. The codecs of the examples
  handle ASCII text, on which cp1252 and UTF-8 agree, and refuse every other byte or
  character; their \<open>int\<close> reads ASCII decimal digits; their JSON parser knows one
  document, given by its bytes and its value; their line separator is that of a
  POSIX host.
\<close>

fun digits_value :: "int \<Rightarrow> pystr \<Rightarrow> int option" where
  "digits_value acc [] = Some acc"
| "digits_value acc (c # s) =
     (if 48 \<le> c \<and> c \<le> 57 then digits_value (10 * acc + int (c - 48)) s else None)"

definition ascii_int :: "pystr \<Rightarrow> error + int" where
  "ascii_int s =
     (case (if s = [] then None else digits_value 0 s) of
        None \<Rightarrow> Inl (ValueError (py ''invalid literal for int() with base 10''))
      | Some n \<Rightarrow> Inr n)"

definition ascii_decode :: "bytes \<Rightarrow> error + pystr" where
  "ascii_decode bs =
     (if list_all (\<lambda>b. (of_char b :: nat) < 128) bs then Inr (map of_char bs)
      else Inl UnicodeDecodeError)"

definition ascii_encode :: "pystr \<Rightarrow> error + bytes" where
  "ascii_encode s =
     (if list_all (\<lambda>c. c < 128) s then Inr (map char_of s) else Inl UnicodeEncodeError)"

definition runtime_for :: "bytes \<Rightarrow> spec_doc \<Rightarrow> runtime" where
  "runtime_for doc_bytes doc =
     \<lparr> json_load = (\<lambda>bs. if bs = doc_bytes then Inr doc else Inl JSONDecodeError),
       int_of_str = ascii_int,
       decode = (\<lambda>name. ascii_decode),
       encode = (\<lambda>name. ascii_encode),
       linesep = [LF] \<rparr>"

text \<open>
  A file system that holds \<open>spec.json\<close> and the fixed-width file, with the given
  contents, in which nothing has happened yet.
\<close>

definition world_with :: "bytes \<Rightarrow> bytes \<Rightarrow> world" where
  "world_with doc_bytes fixed_width =
     \<lparr> files = [py ''spec.json'' \<mapsto> doc_bytes, py ''fixed_width_cp1252.txt'' \<mapsto> fixed_width],
       io_log = [] \<rparr>"

text \<open>The document with the columns \<open>A\<close> of width 3 and \<open>B\<close> of width 2, and a header.\<close>

definition spec_json :: bytes where
  \<open>spec_json = ''{"ColumnNames": ["A", "B"], "Offsets": ["3", "2"], "IncludeHeader": "True", "FixedWidthEncoding": "windows-1252", "DelimitedEncoding": "utf-8"}''\<close>

definition example_spec :: spec_doc where
  "example_spec =
     \<lparr> ColumnNames = [py ''A'', py ''B''],
       Offsets = [JStr (py ''3''), JStr (py ''2'')],
       IncludeHeader = py ''True'',
       FixedWidthEncoding = py ''windows-1252'',
       DelimitedEncoding = py ''utf-8'' \<rparr>"

definition example_runtime :: runtime where
  "example_runtime = runtime_for spec_json example_spec"

definition example_world :: "bytes \<Rightarrow> world" where
  "example_world fixed_width = world_with spec_json fixed_width"

definition example_init :: "world \<Rightarrow> pystr option \<Rightarrow> (error + EncodingProperties) \<times> world" where
  "example_init w newline =
     EncodingProperties_init example_runtime w (py ''spec.json'')
       (py ''fixed_width_cp1252.txt'') (py ''delimited_utf8.txt'') newline"

definition example_props :: "pystr option \<Rightarrow> EncodingProperties" where
  "example_props newline =
     \<lparr> spec_filename = py ''spec.json'',
       fixed_width_filename = py ''fixed_width_cp1252.txt'',
       delimited_filename = py ''delimited_utf8.txt'',
       delimited_newline = newline,
       column_names = [py ''A'', py ''B''],
       offsets = [3, 2],
       fixed_width_encoding = py ''cp1252'',
       delimited_encoding = py ''UTF-8'',
       include_header = True \<rparr>"

definition example_run :: "bytes \<Rightarrow> pystr option \<Rightarrow> (error + unit) \<times> world" where
  "example_run fixed_width newline =
     run_pipeline example_runtime (example_world fixed_width) (py ''spec.json'')
       (py ''fixed_width_cp1252.txt'') (py ''delimited_utf8.txt'') newline"

text \<open>
  A fixed-width file of three lines, the second of them one character too long, and
  two files with one line of the wrong length each, at different places.
\<close>

definition three_lines :: bytes where
  "three_lines = ''abc 1'' @ [CHR 0x0A] @ ''abcd 1'' @ [CHR 0x0A] @ ''xyz 2''"

definition short_first_line :: bytes where
  "short_first_line = ''ab'' @ [CHR 0x0A] @ ''abc 1'' @ [CHR 0x0A]"

definition long_second_line :: bytes where
  "long_second_line = ''abc 1'' @ [CHR 0x0A] @ ''abcdefg'' @ [CHR 0x0A]"


text \<open>The tabulator, which is not a legal newline.\<close>

definition TAB :: nat where "TAB = 9"

text \<open>
  A document with no column at all, one with a width of zero and a negative width,
  and one with three names for two widths.
\<close>

definition empty_json :: bytes where
  \<open>empty_json = ''{"ColumnNames": [], "Offsets": [], "IncludeHeader": "True", "FixedWidthEncoding": "windows-1252", "DelimitedEncoding": "utf-8"}''\<close>

definition empty_spec :: spec_doc where
  "empty_spec = example_spec \<lparr> ColumnNames := [], Offsets := [] \<rparr>"

definition negative_json :: bytes where
  \<open>negative_json = ''{"ColumnNames": ["A", "B"], "Offsets": [0, -1], "IncludeHeader": "True", "FixedWidthEncoding": "windows-1252", "DelimitedEncoding": "utf-8"}''\<close>

definition negative_spec :: spec_doc where
  "negative_spec = example_spec \<lparr> Offsets := [JInt 0, JInt (- 1)] \<rparr>"

definition mismatch_json :: bytes where
  \<open>mismatch_json = ''{"ColumnNames": ["A", "B", "C"], "Offsets": ["3", "2"], "IncludeHeader": "True", "FixedWidthEncoding": "windows-1252", "DelimitedEncoding": "utf-8"}''\<close>

definition mismatch_spec :: spec_doc where
  "mismatch_spec = example_spec \<lparr> ColumnNames := [py ''A'', py ''B'', py ''C''] \<rparr>"

text \<open>A document that asks for an encoding the program does not know.\<close>

definition latin_json :: bytes where
  \<open>latin_json = ''{"ColumnNames": ["A", "B"], "Offsets": ["3", "2"], "IncludeHeader": "True", "FixedWidthEncoding": "latin-1", "DelimitedEncoding": "utf-8"}''\<close>

definition latin_spec :: spec_doc where
  "latin_spec = example_spec \<lparr> FixedWidthEncoding := py ''latin-1'' \<rparr>"

section \<open>Slicing and padding\<close>

lemma py_slice_nonneg:
  assumes "0 \<le> a" "a \<le> b"
  shows "py_slice xs a b = take (nat (b - a)) (drop (nat a) xs)"
proof (cases "nat a \<le> length xs")
  case True
  show ?thesis
  proof (cases "nat b \<le> length xs")
    case True
    with assms \<open>nat a \<le> length xs\<close> show ?thesis
      by (simp add: py_slice_def slice_index_def Let_def min_def nat_diff_distrib)
  next
    case False
    with assms True show ?thesis
      by (simp add: py_slice_def slice_index_def Let_def min_def nat_diff_distrib)
  qed
next
  case False
  with assms show ?thesis
    by (simp add: py_slice_def slice_index_def Let_def min_def)
qed

lemma length_line_data: "length (line_data ws line) = length ws"
  by (simp add: line_data_def)

lemma nth_line_data:
  "i < length ws \<Longrightarrow>
   line_data ws line ! i =
     replace_with_empty
       (py_slice line (sum_list (take i ws)) (sum_list (take i ws) + ws ! i)) SP"
  by (simp add: line_data_def nth_enumerate_eq)

lemma sum_list_take_nonneg:
  "\<forall>w\<in>set ws. (0::int) \<le> w \<Longrightarrow> 0 \<le> sum_list (take i ws)"
  by (meson in_set_takeD sum_list_nonneg)

lemma nth_line_data_nonneg:
  assumes "\<forall>w\<in>set ws. 0 \<le> w" "i < length ws"
  shows "line_data ws line ! i =
     filter (\<lambda>c. c \<noteq> SP) (take (nat (ws ! i)) (drop (nat (sum_list (take i ws))) line))"
proof -
  have "0 \<le> ws ! i" using assms by simp
  then show ?thesis
    using sum_list_take_nonneg[OF assms(1), of i] assms(2)
    by (simp add: nth_line_data py_slice_nonneg replace_with_empty_def)
qed

text \<open>
  C5: for a logical line whose length is the sum of the widths, the line is accepted,
  there is one field per column, and the field of column \<open>i\<close> is the part of the line
  that starts at the sum of the widths before \<open>i\<close> and has the width of column \<open>i\<close>,
  with every space deleted, the ones inside the value too. The widths are those of a
  column specification, none of them negative.
\<close>

theorem decoded_field_is_slice_without_spaces:
  assumes "\<forall>w\<in>set ws. 0 \<le> w"
      and "int (length line) = sum_list ws"
      and "i < length ws"
  shows "\<exists>fs. parse_line ws line = Inr fs
           \<and> length fs = length ws
           \<and> fs ! i =
               filter (\<lambda>c. c \<noteq> SP)
                 (take (nat (ws ! i)) (drop (nat (sum_list (take i ws))) line))"
  using assms
  by (simp add: parse_line_def length_line_data nth_line_data_nonneg)

theorem decoded_field_is_slice_without_spaces_witness:
  "list_all (\<lambda>w. 0 \<le> w) [3, 2 :: int]
   \<and> int (length (py ''abc 1'')) = sum_list [3, 2]
   \<and> (1::nat) < length [3, 2 :: int]
   \<and> (\<exists>fs. parse_line [3, 2] (py ''abc 1'') = Inr fs \<and> length fs = 2 \<and> fs ! 1 = py ''1'')"
  using decoded_field_is_slice_without_spaces [of "[3, 2]" "py ''abc 1''" 1]
  by (simp add: py_def SP_def numeral_2_eq_2)

lemma drop_concat_take:
  "drop (length (concat (take i ps))) (concat ps) = concat (drop i ps)"
proof -
  have "concat ps = concat (take i ps) @ concat (drop i ps)"
    by (metis append_take_drop_id concat_append)
  then show ?thesis by (metis append_eq_conv_conj)
qed

lemma take_drop_concat_nth:
  assumes "i < length ps"
  shows "take (length (ps ! i)) (drop (length (concat (take i ps))) (concat ps)) = ps ! i"
proof -
  have "drop i ps = ps ! i # drop (Suc i) ps" using assms by (simp add: Cons_nth_drop_Suc)
  then show ?thesis using assms by (simp add: drop_concat_take)
qed

lemma int_length_concat: "int (length (concat ps)) = sum_list (map (\<lambda>p. int (length p)) ps)"
  by (induction ps) simp_all

lemma line_data_concat:
  assumes "ws = map (\<lambda>p. int (length p)) ps"
  shows "line_data ws (concat ps) = map (\<lambda>p. filter (\<lambda>c. c \<noteq> SP) p) ps"
proof (rule nth_equalityI)
  show "length (line_data ws (concat ps)) = length (map (\<lambda>p. filter (\<lambda>c. c \<noteq> SP) p) ps)"
    using assms by (simp add: length_line_data)
next
  fix i assume "i < length (line_data ws (concat ps))"
  then have i: "i < length ps" "i < length ws" using assms by (simp_all add: length_line_data)
  have nn: "\<forall>w\<in>set ws. 0 \<le> w" using assms by auto
  have "sum_list (take i ws) = int (length (concat (take i ps)))"
    using assms by (simp add: int_length_concat take_map)
  moreover have "ws ! i = int (length (ps ! i))" using assms i by simp
  ultimately show "line_data ws (concat ps) ! i = map (\<lambda>p. filter (\<lambda>c. c \<noteq> SP) p) ps ! i"
    using i by (simp add: nth_line_data_nonneg[OF nn i(2)] take_drop_concat_nth)
qed

lemma parse_line_concat:
  assumes "ws = map (\<lambda>p. int (length p)) ps"
  shows "parse_line ws (concat ps) = Inr (map (\<lambda>p. filter (\<lambda>c. c \<noteq> SP) p) ps)"
  using assms by (simp add: parse_line_def line_data_concat int_length_concat)

lemma ljust_props:
  assumes "SP \<notin> set f" "int (length f) \<le> w"
  shows "int (length (ljust f w)) = w" "filter (\<lambda>c. c \<noteq> SP) (ljust f w) = f"
        "set (ljust f w) \<subseteq> insert SP (set f)"
  using assms by (auto simp: ljust_def filter_id_conv)

lemma rjust_props:
  assumes "SP \<notin> set f" "int (length f) \<le> w"
  shows "int (length (rjust f w)) = w" "filter (\<lambda>c. c \<noteq> SP) (rjust f w) = f"
        "set (rjust f w) \<subseteq> insert SP (set f)"
  using assms by (auto simp: rjust_def filter_id_conv)

lemma padded_fields:
  assumes len: "length fs = length ws"
      and ok: "\<forall>(f, w)\<in>set (zip fs ws). SP \<notin> set f \<and> int (length f) \<le> w"
      and pad: "pad = ljust \<or> pad = rjust"
  shows "ws = map (\<lambda>p. int (length p)) (map2 pad fs ws)"
    and "map (\<lambda>p. filter (\<lambda>c. c \<noteq> SP) p) (map2 pad fs ws) = fs"
    and "set (concat (map2 pad fs ws)) \<subseteq> insert SP (\<Union>(set ` set fs))"
proof -
  have each: "int (length (pad f w)) = w \<and> filter (\<lambda>c. c \<noteq> SP) (pad f w) = f
              \<and> set (pad f w) \<subseteq> insert SP (set f)"
    if "(f, w) \<in> set (zip fs ws)" for f w
    using that ok pad ljust_props[of f w] rjust_props[of f w] by blast
  have nth: "(fs ! i, ws ! i) \<in> set (zip fs ws)" if "i < length ws" for i
    using that len by (metis in_set_zip fst_conv snd_conv)
  show "ws = map (\<lambda>p. int (length p)) (map2 pad fs ws)"
    using len each nth by (intro nth_equalityI) simp_all
  show "map (\<lambda>p. filter (\<lambda>c. c \<noteq> SP) p) (map2 pad fs ws) = fs"
    using len each nth by (intro nth_equalityI) simp_all
  show "set (concat (map2 pad fs ws)) \<subseteq> insert SP (\<Union>(set ` set fs))"
  proof
    fix c assume "c \<in> set (concat (map2 pad fs ws))"
    then obtain f w where fw: "(f, w) \<in> set (zip fs ws)" "c \<in> set (pad f w)" by auto
    then have "c \<in> insert SP (set f)" using each by blast
    moreover have "f \<in> set fs" using fw(1) by (meson set_zip_leftD)
    ultimately show "c \<in> insert SP (\<Union>(set ` set fs))" by auto
  qed
qed

lemma replace_line_LF: "LF \<notin> set line \<Longrightarrow> replace_with_empty (line @ [LF]) LF = line"
  by (auto simp: replace_with_empty_def filter_id_conv)

lemma universal_newlines_Cons: "c \<noteq> CR \<Longrightarrow> universal_newlines (c # s) = c # universal_newlines s"
  by (cases s) simp_all

lemma universal_newlines_append:
  "CR \<notin> set l \<Longrightarrow> universal_newlines (l @ t) = l @ universal_newlines t"
  by (induction l) (simp_all add: universal_newlines_Cons)

lemma iter_lines_line:
  "LF \<notin> set l \<Longrightarrow> iter_lines cur (l @ LF # rest) = (cur @ l @ [LF]) # iter_lines [] rest"
  by (induction l arbitrary: cur) simp_all

lemma file_lines_single:
  assumes "LF \<notin> set l" "CR \<notin> set l" "nl \<in> {[LF], [CR], [CR, LF]}"
  shows "file_lines (l @ nl) = [l @ [LF]]"
proof -
  have "universal_newlines nl = [LF]" using assms(3) by (auto simp: CR_def LF_def)
  then show ?thesis
    using assms(1,2) iter_lines_line[of l "[]" "[]"]
    by (simp add: file_lines_def universal_newlines_append)
qed

text \<open>
  C4: a record whose fields hold no space and are no longer than their columns is
  padded with spaces to the column widths, on the right (\<open>ljust\<close>) or on the left
  (\<open>rjust\<close>), and the padded fields are concatenated. Decoding that line gives back
  the fields in order. When the fields hold no newline character either, the same
  comes out of a file that holds the line followed by any of the three newlines.
\<close>

theorem round_trip:
  assumes len: "length fs = length ws"
      and ok: "\<forall>(f, w)\<in>set (zip fs ws). SP \<notin> set f \<and> int (length f) \<le> w"
      and pad: "pad = ljust \<or> pad = rjust"
  shows "parse_line ws (concat (map2 pad fs ws)) = Inr fs
       \<and> ((\<forall>f\<in>set fs. LF \<notin> set f \<and> CR \<notin> set f) \<longrightarrow>
            (\<forall>nl\<in>{[LF], [CR], [CR, LF]}.
               parse_lines ws (file_lines (concat (map2 pad fs ws) @ nl)) [] = Inr [fs]))"
proof -
  let ?line = "concat (map2 pad fs ws)"
  note p = padded_fields[OF len ok pad]
  have line: "parse_line ws ?line = Inr fs"
    using parse_line_concat[OF p(1)] p(2) by simp
  have "parse_lines ws (file_lines (?line @ nl)) [] = Inr [fs]"
    if nonl: "\<forall>f\<in>set fs. LF \<notin> set f \<and> CR \<notin> set f" and nl: "nl \<in> {[LF], [CR], [CR, LF]}" for nl
  proof -
    have "c \<in> insert SP (\<Union>(set ` set fs))" if "c \<in> set ?line" for c
      using p(3) that by blast
    then have "c = SP \<or> (\<exists>f\<in>set fs. c \<in> set f)" if "c \<in> set ?line" for c
      using that by blast
    then have "LF \<notin> set ?line" "CR \<notin> set ?line"
      using nonl by (force simp: SP_def LF_def CR_def)+
    then have no_lf: "LF \<notin> set ?line" and no_cr: "CR \<notin> set ?line"
      by blast+
    have fl: "file_lines (?line @ nl) = [?line @ [LF]]"
      using no_lf no_cr nl by (rule file_lines_single)
    have r: "replace_with_empty (?line @ [LF]) LF = ?line"
      using no_lf by (rule replace_line_LF)
    show ?thesis unfolding fl by (simp only: parse_lines.simps r line sum.case append_Nil)
  qed
  with line show ?thesis by blast
qed

theorem round_trip_witness:
  "length [py ''abc'', py ''1''] = length [3, 2 :: int]
   \<and> list_all (\<lambda>(f, w). SP \<notin> set f \<and> int (length f) \<le> w) (zip [py ''abc'', py ''1''] [3, 2])
   \<and> list_all (\<lambda>f. LF \<notin> set f \<and> CR \<notin> set f) [py ''abc'', py ''1'']
   \<and> concat (map2 ljust [py ''abc'', py ''1''] [3, 2]) = py ''abc1 ''
   \<and> parse_line [3, 2] (py ''abc1 '') = Inr [py ''abc'', py ''1'']
   \<and> parse_lines [3, 2] (file_lines (py ''abc1 '' @ [CR, LF])) [] = Inr [[py ''abc'', py ''1'']]"
proof -
  have h1: "length [py ''abc'', py ''1''] = length [3, 2 :: int]" by simp
  have h2: "\<forall>(f, w)\<in>set (zip [py ''abc'', py ''1''] [3, 2 :: int]). SP \<notin> set f \<and> int (length f) \<le> w"
    by (simp add: py_def SP_def)
  have h3: "\<forall>f\<in>set [py ''abc'', py ''1'']. LF \<notin> set f \<and> CR \<notin> set f"
    by (simp add: py_def LF_def CR_def)
  have l: "concat (map2 ljust [py ''abc'', py ''1''] [3, 2]) = py ''abc1 ''"
    by (simp add: ljust_def py_def SP_def)
  note r = round_trip [OF h1 h2, of ljust, unfolded l]
  from r h3 have "parse_line [3, 2] (py ''abc1 '') = Inr [py ''abc'', py ''1'']"
    and "parse_lines [3, 2] (file_lines (py ''abc1 '' @ [CR, LF])) [] = Inr [[py ''abc'', py ''1'']]"
    by simp_all
  moreover have "list_all (\<lambda>(f, w). SP \<notin> set f \<and> int (length f) \<le> w)
      (zip [py ''abc'', py ''1''] [3, 2])"
    using h2 by (simp only: list_all_iff)
  moreover have "list_all (\<lambda>f. LF \<notin> set f \<and> CR \<notin> set f) [py ''abc'', py ''1'']"
    using h3 by (simp only: list_all_iff)
  ultimately show ?thesis using h1 l by blast
qed

section \<open>The loop over the lines\<close>

lemma parse_lines_good_prefix:
  "\<forall>l\<in>set pre. int (length (replace_with_empty l LF)) = sum_list ws \<Longrightarrow>
   parse_lines ws (pre @ rest) acc =
     parse_lines ws rest (acc @ map (\<lambda>l. line_data ws (replace_with_empty l LF)) pre)"
  by (induction pre arbitrary: acc) (simp_all add: parse_line_def)

lemma parse_lines_bad_line:
  "raw \<in> set ls \<Longrightarrow> int (length (replace_with_empty raw LF)) \<noteq> sum_list ws \<Longrightarrow>
   parse_lines ws ls acc = Inl (ValueError width_message)"
proof (induction ls arbitrary: acc)
  case Nil
  then show ?case by simp
next
  case (Cons l ls)
  show ?case
  proof (cases "int (length (replace_with_empty l LF)) = sum_list ws")
    case True
    with Cons have "raw \<in> set ls" by auto
    with Cons True show ?thesis by (simp add: parse_line_def)
  next
    case False
    then show ?thesis by (simp add: parse_line_def)
  qed
qed

lemma parse_lines_all_good:
  "\<forall>l\<in>set ls. int (length (replace_with_empty l LF)) = sum_list ws \<Longrightarrow>
   parse_lines ws ls acc = Inr (acc @ map (\<lambda>l. line_data ws (replace_with_empty l LF)) ls)"
  using parse_lines_good_prefix[of ls ws "[]" acc] by simp

lemma parse_lines_error:
  "parse_lines ws ls acc = Inl e \<Longrightarrow> e = ValueError width_message"
  by (induction ls arbitrary: acc) (auto simp: parse_line_def split: if_splits)

lemma parse_file:
  assumes "files w (fixed_width_filename (encoding_props self)) = Some bs"
      and "decode rt (fixed_width_encoding (encoding_props self)) bs = Inr txt"
  shows "parse_fixed_width_file rt self w =
           (parse_lines (offsets (encoding_props self)) (file_lines txt) [], self,
            w\<lparr>io_log := io_log w @ [OpenRead (fixed_width_filename (encoding_props self))]\<rparr>)"
  using assms by (simp add: parse_fixed_width_file_def open_read_def Let_def)

text \<open>
  C3: when the file yields a line whose length, after the newline is removed, is not
  the sum of the widths, \<open>parse_fixed_width_file\<close> raises the \<open>ValueError\<close> of the
  width check (the specification's \<open>RecordWidthError\<close>) and returns no record of any
  line, for every list of widths. The first such line ends the loop: whatever lines
  follow it, the outcome is that exception, so no later line is looked at, and no
  line is skipped or padded. The file system is left as it was.
\<close>

theorem malformed_line_aborts_decode:
  assumes "files w (fixed_width_filename (encoding_props self)) = Some bs"
      and "decode rt (fixed_width_encoding (encoding_props self)) bs = Inr txt"
      and "file_lines txt = pre @ raw # rest"
      and "int (length (replace_with_empty raw LF)) \<noteq> sum_list (offsets (encoding_props self))"
  shows "fst (parse_fixed_width_file rt self w) = Inl (ValueError width_message)
       \<and> files (snd (snd (parse_fixed_width_file rt self w))) = files w
       \<and> (\<forall>later. parse_lines (offsets (encoding_props self)) (pre @ raw # later) []
                     = Inl (ValueError width_message))"
proof -
  have "parse_lines (offsets (encoding_props self)) (pre @ raw # later) []
          = Inl (ValueError width_message)" for later
    using assms(4) by (intro parse_lines_bad_line[of raw]) simp_all
  then show ?thesis
    using assms(3) by (simp add: parse_file[OF assms(1,2)])
qed

lemma example_props_simps [simp]:
  "fixed_width_filename (example_props nl) = py ''fixed_width_cp1252.txt''"
  "fixed_width_encoding (example_props nl) = py ''cp1252''"
  "delimited_filename (example_props nl) = py ''delimited_utf8.txt''"
  "delimited_encoding (example_props nl) = py ''UTF-8''"
  "delimited_newline (example_props nl) = nl"
  "offsets (example_props nl) = [3, 2]"
  "column_names (example_props nl) = [py ''A'', py ''B'']"
  "include_header (example_props nl) = True"
  by (simp_all add: example_props_def)

theorem malformed_line_aborts_decode_witness:
  "files (example_world three_lines) (py ''fixed_width_cp1252.txt'') = Some three_lines
   \<and> decode example_runtime (py ''cp1252'') three_lines
       = Inr (py ''abc 1'' @ [LF] @ py ''abcd 1'' @ [LF] @ py ''xyz 2'')
   \<and> file_lines (py ''abc 1'' @ [LF] @ py ''abcd 1'' @ [LF] @ py ''xyz 2'')
       = [py ''abc 1'' @ [LF]] @ (py ''abcd 1'' @ [LF]) # [py ''xyz 2'']
   \<and> int (length (replace_with_empty (py ''abcd 1'' @ [LF]) LF)) \<noteq> sum_list [3, 2]
   \<and> fst (parse_fixed_width_file example_runtime \<lparr>encoding_props = example_props None\<rparr>
            (example_world three_lines)) = Inl (ValueError width_message)"
proof -
  let ?self = "\<lparr>encoding_props = example_props None\<rparr>"
  have h1: "files (example_world three_lines) (fixed_width_filename (encoding_props ?self))
              = Some three_lines"
    by (simp add: example_world_def world_with_def py_def)
  have h2: "decode example_runtime (fixed_width_encoding (encoding_props ?self)) three_lines
              = Inr (py ''abc 1'' @ [LF] @ py ''abcd 1'' @ [LF] @ py ''xyz 2'')"
    by (simp add: example_runtime_def runtime_for_def ascii_decode_def three_lines_def py_def LF_def)
  have h3: "file_lines (py ''abc 1'' @ [LF] @ py ''abcd 1'' @ [LF] @ py ''xyz 2'')
       = [py ''abc 1'' @ [LF]] @ (py ''abcd 1'' @ [LF]) # [py ''xyz 2'']"
    by (simp add: file_lines_def py_def LF_def CR_def)
  have h4: "int (length (replace_with_empty (py ''abcd 1'' @ [LF]) LF))
              \<noteq> sum_list (offsets (encoding_props ?self))"
    by (simp add: replace_with_empty_def py_def LF_def)
  from malformed_line_aborts_decode [OF h1 h2 h3 h4] h1 h2 h3 h4
  show ?thesis by simp
qed

section \<open>Construction of the properties\<close>

lemma init_loaded:
  assumes "files w sf = Some bs" "json_load rt bs = Inr spec"
  shows "EncodingProperties_init rt w sf ff df nl =
     (if nl \<notin> {None, Some [], Some [LF], Some [CR, LF], Some [CR]}
      then Inl (ValueError (newline_message nl))
      else case map_int rt (Offsets spec) of Inl e \<Rightarrow> Inl e
        | Inr ints \<Rightarrow>
           if length (ColumnNames spec) \<noteq> length ints then Inl (ValueError mismatch_message)
           else if FixedWidthEncoding spec \<noteq> py ''windows-1252''
             then Inl (ValueError (fixed_width_encoding_message (FixedWidthEncoding spec)))
           else if DelimitedEncoding spec \<noteq> py ''utf-8''
             then Inl (ValueError (delimited_encoding_message (DelimitedEncoding spec)))
           else Inr \<lparr> spec_filename = sf, fixed_width_filename = ff, delimited_filename = df,
                   delimited_newline = nl, column_names = ColumnNames spec, offsets = ints,
                   fixed_width_encoding = py ''cp1252'', delimited_encoding = py ''UTF-8'',
                   include_header = (IncludeHeader spec = py ''True'') \<rparr>,
      w\<lparr>io_log := io_log w @ [OpenRead sf]\<rparr>)"
  using assms
  by (simp add: EncodingProperties_init_def open_read_def Let_def split: sum.splits)

lemma init_not_loaded:
  "files w sf = None \<Longrightarrow> EncodingProperties_init rt w sf ff df nl = (Inl (FileNotFoundError sf), w)"
  "files w sf = Some bs \<Longrightarrow> json_load rt bs = Inl e \<Longrightarrow>
     EncodingProperties_init rt w sf ff df nl = (Inl e, w\<lparr>io_log := io_log w @ [OpenRead sf]\<rparr>)"
  by (simp_all add: EncodingProperties_init_def open_read_def Let_def)

lemma init_Inr_loaded:
  assumes "EncodingProperties_init rt w sf ff df nl = (Inr ep, w')"
  shows "\<exists>bs spec. files w sf = Some bs \<and> json_load rt bs = Inr spec"
proof (cases "files w sf")
  case None
  with assms show ?thesis by (simp add: init_not_loaded)
next
  case (Some bs)
  with assms show ?thesis by (cases "json_load rt bs") (auto simp: init_not_loaded)
qed

lemma example_init_ok:
  assumes "nl \<in> {None, Some [], Some [LF], Some [CR, LF], Some [CR]}"
  shows "example_init (example_world bs) nl =
    (Inr (example_props nl),
     \<lparr>files = files (example_world bs), io_log = [OpenRead (py ''spec.json'')]\<rparr>)"
proof -
  have f: "files (example_world bs) (py ''spec.json'') = Some spec_json"
    by (simp add: example_world_def world_with_def py_def)
  have j: "json_load example_runtime spec_json = Inr example_spec"
    by (simp add: example_runtime_def runtime_for_def)
  have m: "map_int example_runtime (Offsets example_spec) = Inr [3, 2]"
    by (simp add: example_runtime_def runtime_for_def example_spec_def ascii_int_def py_def)
  show ?thesis
    unfolding example_init_def init_loaded[OF f j] m
    using assms by (simp add: example_spec_def example_props_def example_world_def world_with_def)
qed


lemma legal_cases:
  "nl \<notin> {None, Some [], Some [LF], Some [CR, LF], Some [CR]} \<Longrightarrow> \<exists>v. nl = Some v"
  by (cases nl) simp_all

text \<open>
  C10: whenever the construction succeeds, the object stores the codec names
  \<open>"cp1252"\<close> and \<open>"UTF-8"\<close>, not the literals \<open>"windows-1252"\<close> and \<open>"utf-8"\<close> that the
  specification document has to hold.
\<close>

theorem init_stores_normalised_encodings:
  assumes "EncodingProperties_init rt w sf ff df nl = (Inr ep, w')"
  shows "fixed_width_encoding ep = py ''cp1252'' \<and> delimited_encoding ep = py ''UTF-8''
       \<and> fixed_width_encoding ep \<noteq> py ''windows-1252'' \<and> delimited_encoding ep \<noteq> py ''utf-8''"
proof -
  from init_Inr_loaded[OF assms] obtain bs spec
    where l: "files w sf = Some bs" "json_load rt bs = Inr spec" by blast
  have "fixed_width_encoding ep = py ''cp1252'' \<and> delimited_encoding ep = py ''UTF-8''"
    using assms unfolding init_loaded[OF l]
    by (auto split: if_splits sum.splits)
  moreover have "py ''cp1252'' \<noteq> py ''windows-1252''" "py ''UTF-8'' \<noteq> py ''utf-8''"
    by (simp_all add: py_def)
  ultimately show ?thesis by simp
qed

theorem init_stores_normalised_encodings_witness:
  "fst (example_init (example_world []) None) = Inr (example_props None)
   \<and> FixedWidthEncoding example_spec = py ''windows-1252''
   \<and> DelimitedEncoding example_spec = py ''utf-8''
   \<and> fixed_width_encoding (example_props None) = py ''cp1252''
   \<and> delimited_encoding (example_props None) = py ''UTF-8''
   \<and> fixed_width_encoding (example_props None) \<noteq> py ''windows-1252''
   \<and> delimited_encoding (example_props None) \<noteq> py ''utf-8''"
proof -
  have h: "example_init (example_world []) None =
     (Inr (example_props None),
      \<lparr>files = files (example_world []), io_log = [OpenRead (py ''spec.json'')]\<rparr>)"
    by (rule example_init_ok) simp
  from init_stores_normalised_encodings[OF h[unfolded example_init_def]] h
  show ?thesis by (simp add: example_spec_def py_def)
qed

text \<open>
  Against C2 as it is written: with the tabulator as newline the construction fails
  with the \<open>ValueError\<close> for the newline, but by then \<open>spec.json\<close> has been opened and
  read; and when \<open>spec.json\<close> does not exist the construction fails with
  \<open>FileNotFoundError\<close>, whatever the newline is.
\<close>

theorem spec_file_is_read_before_terminator_check:
  "fst (example_init (example_world []) (Some [TAB]))
     = Inl (ValueError (py ''Illegal newline value: '' @ [TAB]))
   \<and> io_log (snd (example_init (example_world []) (Some [TAB]))) = [OpenRead (py ''spec.json'')]
   \<and> fst (example_init \<lparr>files = Map.empty, io_log = []\<rparr> (Some [TAB]))
     = Inl (FileNotFoundError (py ''spec.json''))"
  by code_simp

text \<open>
  C2, amended: with a newline that is none of \<open>None\<close>, \<open>""\<close>, \<open>"\n"\<close>, \<open>"\r\n"\<close>,
  \<open>"\r"\<close>, the construction first opens the specification file and parses it. When
  the file is missing, or the parser refuses it, that error is raised. Otherwise the
  construction fails with the \<open>ValueError\<close> whose message is
  \<open>"Illegal newline value: "\<close> followed by the value (the specification's
  \<open>IllegalTerminatorError\<close>). In each case the specification file is the only file
  opened, and no file is changed.
\<close>

theorem illegal_terminator_rejected_once_spec_is_loaded:
  assumes "nl \<notin> {None, Some [], Some [LF], Some [CR, LF], Some [CR]}"
  shows "\<exists>v. nl = Some v \<and>
     EncodingProperties_init rt w sf ff df nl =
       (case files w sf of
          None \<Rightarrow> (Inl (FileNotFoundError sf), w)
        | Some bs \<Rightarrow>
            (case json_load rt bs of
               Inl e \<Rightarrow> Inl e
             | Inr spec \<Rightarrow> Inl (ValueError (py ''Illegal newline value: '' @ v)),
             w\<lparr>io_log := io_log w @ [OpenRead sf]\<rparr>))"
proof -
  from legal_cases[OF assms] obtain v where v: "nl = Some v" by blast
  have "EncodingProperties_init rt w sf ff df nl =
       (case files w sf of
          None \<Rightarrow> (Inl (FileNotFoundError sf), w)
        | Some bs \<Rightarrow>
            (case json_load rt bs of
               Inl e \<Rightarrow> Inl e
             | Inr spec \<Rightarrow> Inl (ValueError (py ''Illegal newline value: '' @ v)),
             w\<lparr>io_log := io_log w @ [OpenRead sf]\<rparr>))"
  proof (cases "files w sf")
    case None
    then show ?thesis by (simp add: init_not_loaded)
  next
    case (Some bs)
    show ?thesis
    proof (cases "json_load rt bs")
      case (Inl e)
      with Some show ?thesis by (simp add: init_not_loaded)
    next
      case (Inr spec)
      with Some assms v show ?thesis
        by (simp add: init_loaded[OF Some Inr] newline_message_def)
    qed
  qed
  with v show ?thesis by blast
qed

theorem illegal_terminator_rejected_once_spec_is_loaded_witness:
  "Some [TAB] \<notin> {None, Some [], Some [LF], Some [CR, LF], Some [CR]}
   \<and> files (example_world []) (py ''spec.json'') = Some spec_json
   \<and> json_load example_runtime spec_json = Inr example_spec
   \<and> example_init (example_world []) (Some [TAB]) =
       (Inl (ValueError (py ''Illegal newline value: '' @ [TAB])),
        (example_world []) \<lparr>io_log := [OpenRead (py ''spec.json'')]\<rparr>)"
proof -
  have h: "Some [TAB] \<notin> {None, Some [], Some [LF], Some [CR, LF], Some [CR]}"
    by (simp add: TAB_def LF_def CR_def)
  have f: "files (example_world []) (py ''spec.json'') = Some spec_json"
    by (simp add: example_world_def world_with_def py_def)
  have j: "json_load example_runtime spec_json = Inr example_spec"
    by (simp add: example_runtime_def runtime_for_def)
  have l: "io_log (example_world []) = []"
    by (simp add: example_world_def world_with_def)
  from illegal_terminator_rejected_once_spec_is_loaded [OF h, of example_runtime
      "example_world []" "py ''spec.json''" "py ''fixed_width_cp1252.txt''" "py ''delimited_utf8.txt''"]
  have "example_init (example_world []) (Some [TAB]) =
       (Inl (ValueError (py ''Illegal newline value: '' @ [TAB])),
        (example_world []) \<lparr>io_log := [OpenRead (py ''spec.json'')]\<rparr>)"
    by (simp add: f j l example_init_def)
  with h f j show ?thesis by blast
qed

text \<open>
  Against C6 as it is written: a document with no column at all, and a document with
  the widths 0 and -1, both pass the construction.
\<close>

theorem empty_and_negative_widths_are_accepted:
  "fst (EncodingProperties_init (runtime_for empty_json empty_spec) (world_with empty_json [])
          (py ''spec.json'') (py ''fixed_width_cp1252.txt'') (py ''delimited_utf8.txt'') None)
     = Inr ((example_props None) \<lparr>column_names := [], offsets := []\<rparr>)
   \<and> fst (EncodingProperties_init (runtime_for negative_json negative_spec)
          (world_with negative_json [])
          (py ''spec.json'') (py ''fixed_width_cp1252.txt'') (py ''delimited_utf8.txt'') None)
     = Inr ((example_props None) \<lparr>offsets := [0, - 1]\<rparr>)"
  by code_simp

text \<open>
  C6, amended: once the specification file is loaded, the newline is legal and every
  offset is converted to an integer, the construction fails with the \<open>ValueError\<close>
  \<open>"The number of column names and offsets do not match"\<close> (the specification's
  \<open>SpecMismatchError\<close>) when the two lists differ in length. Nothing else about the
  lists is checked: with lists of equal length and the two supported encodings the
  construction succeeds and stores the names and the widths as they are, whether or
  not the lists are empty and whatever the sign of a width.
\<close>

theorem only_the_lengths_are_compared:
  assumes "files w sf = Some bs" and "json_load rt bs = Inr spec"
      and "nl \<in> {None, Some [], Some [LF], Some [CR, LF], Some [CR]}"
      and "map_int rt (Offsets spec) = Inr ints"
  shows "(length (ColumnNames spec) \<noteq> length ints \<longrightarrow>
            fst (EncodingProperties_init rt w sf ff df nl) = Inl (ValueError mismatch_message))
       \<and> (length (ColumnNames spec) = length ints \<longrightarrow>
            FixedWidthEncoding spec = py ''windows-1252'' \<longrightarrow>
            DelimitedEncoding spec = py ''utf-8'' \<longrightarrow>
            (\<exists>ep. fst (EncodingProperties_init rt w sf ff df nl) = Inr ep
                  \<and> column_names ep = ColumnNames spec \<and> offsets ep = ints))"
  using assms(3,4) by (simp add: init_loaded[OF assms(1,2)])

theorem only_the_lengths_are_compared_witness:
  "files (world_with mismatch_json []) (py ''spec.json'') = Some mismatch_json
   \<and> json_load (runtime_for mismatch_json mismatch_spec) mismatch_json = Inr mismatch_spec
   \<and> map_int (runtime_for mismatch_json mismatch_spec) (Offsets mismatch_spec) = Inr [3, 2]
   \<and> length (ColumnNames mismatch_spec) = 3
   \<and> fst (EncodingProperties_init (runtime_for mismatch_json mismatch_spec)
            (world_with mismatch_json [])
            (py ''spec.json'') (py ''fixed_width_cp1252.txt'') (py ''delimited_utf8.txt'') None)
       = Inl (ValueError mismatch_message)"
proof -
  have f: "files (world_with mismatch_json []) (py ''spec.json'') = Some mismatch_json"
    by (simp add: world_with_def py_def)
  have j: "json_load (runtime_for mismatch_json mismatch_spec) mismatch_json = Inr mismatch_spec"
    by (simp add: runtime_for_def)
  have m: "map_int (runtime_for mismatch_json mismatch_spec) (Offsets mismatch_spec) = Inr [3, 2]"
    by (simp add: runtime_for_def mismatch_spec_def example_spec_def ascii_int_def py_def)
  have n: "length (ColumnNames mismatch_spec) = 3"
    by (simp add: mismatch_spec_def)
  have l: "None \<in> {None, Some [], Some [LF], Some [CR, LF], Some [CR]}" by simp
  from only_the_lengths_are_compared [OF f j l m] n
  have "fst (EncodingProperties_init (runtime_for mismatch_json mismatch_spec)
            (world_with mismatch_json [])
            (py ''spec.json'') (py ''fixed_width_cp1252.txt'') (py ''delimited_utf8.txt'') None)
       = Inl (ValueError mismatch_message)"
    by simp
  with f j m n show ?thesis by blast
qed

section \<open>Writing the delimited file\<close>



lemma generate_as_write_rows:
  "generate_delimited_file rt self w data =
     (case write_rows rt (delimited_filename (encoding_props self))
             (delimited_encoding (encoding_props self))
             (resolve_newline rt (delimited_newline (encoding_props self)))
             ((if include_header (encoding_props self) then [column_names (encoding_props self)] else []) @ data)
             (open_write w (delimited_filename (encoding_props self))) of
        (r, w3) \<Rightarrow> (r, self, w3))"
  by (simp add: generate_delimited_file_def Let_def split: prod.splits sum.splits)








lemma parse_keeps_self: "fst (snd (parse_fixed_width_file rt self w)) = self"
  by (simp add: parse_fixed_width_file_def Let_def split: prod.splits sum.splits)

lemma generate_keeps_self: "fst (snd (generate_delimited_file rt self w data)) = self"
  by (simp add: generate_as_write_rows split: prod.splits)

text \<open>
  C9: \<open>parse_fixed_width_file\<close> followed by \<open>generate_delimited_file\<close> leaves the
  writer and the properties it holds as they were, every field of them; the newline
  that \<open>generate_delimited_file\<close> resolves is a local variable, and the stored
  \<open>delimited_newline\<close> keeps its value, \<open>None\<close> included. This holds whatever the two
  calls return and whatever records are handed to the second.
\<close>

theorem configuration_is_not_modified:
  assumes "parse_fixed_width_file rt self w = (r1, self1, w1)"
      and "generate_delimited_file rt' self1 w1 data = (r2, self2, w2)"
  shows "self1 = self \<and> self2 = self
       \<and> encoding_props self2 = encoding_props self
       \<and> delimited_newline (encoding_props self2) = delimited_newline (encoding_props self)"
  using assms parse_keeps_self[of rt self w] generate_keeps_self[of rt' self1 w1 data]
  by simp

theorem configuration_is_not_modified_witness:
  "fst (parse_fixed_width_file example_runtime \<lparr>encoding_props = example_props None\<rparr>
          (example_world (''abc 1'' @ [CHR 0x0A])))
     = Inr [[py ''abc'', py ''1'']]
   \<and> fst (snd (parse_fixed_width_file example_runtime \<lparr>encoding_props = example_props None\<rparr>
          (example_world (''abc 1'' @ [CHR 0x0A]))))
     = \<lparr>encoding_props = example_props None\<rparr>
   \<and> fst (generate_delimited_file example_runtime \<lparr>encoding_props = example_props None\<rparr>
          (snd (snd (parse_fixed_width_file example_runtime \<lparr>encoding_props = example_props None\<rparr>
             (example_world (''abc 1'' @ [CHR 0x0A])))))
          [[py ''abc'', py ''1'']])
     = Inr ()
   \<and> fst (snd (generate_delimited_file example_runtime \<lparr>encoding_props = example_props None\<rparr>
          (snd (snd (parse_fixed_width_file example_runtime \<lparr>encoding_props = example_props None\<rparr>
             (example_world (''abc 1'' @ [CHR 0x0A])))))
          [[py ''abc'', py ''1'']]))
     = \<lparr>encoding_props = example_props None\<rparr>"
proof -
  let ?self = "\<lparr>encoding_props = example_props None\<rparr>"
  let ?p = "parse_fixed_width_file example_runtime ?self (example_world (''abc 1'' @ [CHR 0x0A]))"
  let ?g = "generate_delimited_file example_runtime (fst (snd ?p)) (snd (snd ?p)) [[py ''abc'', py ''1'']]"
  have h1: "?p = (fst ?p, fst (snd ?p), snd (snd ?p))" by simp
  have h2: "?g = (fst ?g, fst (snd ?g), snd (snd ?g))" by simp
  note c = configuration_is_not_modified [OF h1 h2]
  have r1: "fst ?p = Inr [[py ''abc'', py ''1'']]" by code_simp
  have r2: "fst (generate_delimited_file example_runtime ?self (snd (snd ?p)) [[py ''abc'', py ''1'']])
              = Inr ()" by code_simp
  from c have s1: "fst (snd ?p) = ?self" and s2: "fst (snd ?g) = ?self" by blast+
  from s1 s2[unfolded s1] r1 r2 show ?thesis by blast
qed

section \<open>The messages of the errors\<close>

text \<open>
  Against C8 as it is written: a file whose first line is too short and a file whose
  second line is too long raise the same \<open>ValueError\<close> with the same message, which
  therefore tells neither which line it was nor what it held.
\<close>

theorem width_error_does_not_name_the_line:
  "fst (parse_fixed_width_file example_runtime \<lparr>encoding_props = example_props None\<rparr>
          (example_world short_first_line))
     = Inl (ValueError (py ''One or more fields are of incorrect length''))
   \<and> fst (parse_fixed_width_file example_runtime \<lparr>encoding_props = example_props None\<rparr>
          (example_world long_second_line))
     = Inl (ValueError (py ''One or more fields are of incorrect length''))"
  by code_simp

text \<open>
  C8, amended: once the specification file is loaded, the error for an illegal
  newline names the value, and the errors for an unsupported fixed-width encoding and
  for an unsupported delimited encoding name the encoding. The error for lists of
  different lengths and the error for a line of the wrong length carry a fixed
  message each, \<open>"The number of column names and offsets do not match"\<close> and
  \<open>"One or more fields are of incorrect length"\<close>, the same for every document and
  every line.
\<close>

theorem error_messages:
  assumes "files w sf = Some bs" and "json_load rt bs = Inr spec"
  shows "(nl \<notin> {None, Some [], Some [LF], Some [CR, LF], Some [CR]} \<longrightarrow>
            (\<exists>v. nl = Some v \<and> fst (EncodingProperties_init rt w sf ff df nl)
                    = Inl (ValueError (py ''Illegal newline value: '' @ v))))
       \<and> (nl \<in> {None, Some [], Some [LF], Some [CR, LF], Some [CR]} \<longrightarrow>
          map_int rt (Offsets spec) = Inr ints \<longrightarrow>
            (length (ColumnNames spec) \<noteq> length ints \<longrightarrow>
               fst (EncodingProperties_init rt w sf ff df nl)
                 = Inl (ValueError (py ''The number of column names and offsets do not match'')))
          \<and> (length (ColumnNames spec) = length ints \<longrightarrow>
             FixedWidthEncoding spec \<noteq> py ''windows-1252'' \<longrightarrow>
               fst (EncodingProperties_init rt w sf ff df nl)
                 = Inl (ValueError (FixedWidthEncoding spec
                     @ py '' is either not a valid encoding, or it has not been implemented.'')))
          \<and> (length (ColumnNames spec) = length ints \<longrightarrow>
             FixedWidthEncoding spec = py ''windows-1252'' \<longrightarrow>
             DelimitedEncoding spec \<noteq> py ''utf-8'' \<longrightarrow>
               fst (EncodingProperties_init rt w sf ff df nl)
                 = Inl (ValueError (DelimitedEncoding spec
                     @ py '' is either not a valid encoding or it has not been implemented.''))))
       \<and> (\<forall>ws ls acc e. parse_lines ws ls acc = Inl e \<longrightarrow>
            e = ValueError (py ''One or more fields are of incorrect length''))"
proof -
  have a: "nl \<notin> {None, Some [], Some [LF], Some [CR, LF], Some [CR]} \<longrightarrow>
            (\<exists>v. nl = Some v \<and> fst (EncodingProperties_init rt w sf ff df nl)
                    = Inl (ValueError (py ''Illegal newline value: '' @ v)))"
  proof
    assume n: "nl \<notin> {None, Some [], Some [LF], Some [CR, LF], Some [CR]}"
    then obtain v where "nl = Some v" by (cases nl) simp_all
    with n show "\<exists>v. nl = Some v \<and> fst (EncodingProperties_init rt w sf ff df nl)
                    = Inl (ValueError (py ''Illegal newline value: '' @ v))"
      by (simp add: init_loaded[OF assms] newline_message_def)
  qed
  have b: "nl \<in> {None, Some [], Some [LF], Some [CR, LF], Some [CR]} \<longrightarrow>
          map_int rt (Offsets spec) = Inr ints \<longrightarrow>
            (length (ColumnNames spec) \<noteq> length ints \<longrightarrow>
               fst (EncodingProperties_init rt w sf ff df nl)
                 = Inl (ValueError (py ''The number of column names and offsets do not match'')))
          \<and> (length (ColumnNames spec) = length ints \<longrightarrow>
             FixedWidthEncoding spec \<noteq> py ''windows-1252'' \<longrightarrow>
               fst (EncodingProperties_init rt w sf ff df nl)
                 = Inl (ValueError (FixedWidthEncoding spec
                     @ py '' is either not a valid encoding, or it has not been implemented.'')))
          \<and> (length (ColumnNames spec) = length ints \<longrightarrow>
             FixedWidthEncoding spec = py ''windows-1252'' \<longrightarrow>
             DelimitedEncoding spec \<noteq> py ''utf-8'' \<longrightarrow>
               fst (EncodingProperties_init rt w sf ff df nl)
                 = Inl (ValueError (DelimitedEncoding spec
                     @ py '' is either not a valid encoding or it has not been implemented.'')))"
    by (simp add: init_loaded[OF assms] mismatch_message_def fixed_width_encoding_message_def
          delimited_encoding_message_def)
  have c: "\<forall>ws ls acc e. parse_lines ws ls acc = Inl e \<longrightarrow>
            e = ValueError (py ''One or more fields are of incorrect length'')"
    using parse_lines_error by (simp add: width_message_def)
  from a b c show ?thesis by blast
qed

theorem error_messages_witness:
  "files (world_with latin_json []) (py ''spec.json'') = Some latin_json
   \<and> json_load (runtime_for latin_json latin_spec) latin_json = Inr latin_spec
   \<and> map_int (runtime_for latin_json latin_spec) (Offsets latin_spec) = Inr [3, 2]
   \<and> length (ColumnNames latin_spec) = length [3, 2 :: int]
   \<and> FixedWidthEncoding latin_spec = py ''latin-1''
   \<and> fst (EncodingProperties_init (runtime_for latin_json latin_spec) (world_with latin_json [])
            (py ''spec.json'') (py ''fixed_width_cp1252.txt'') (py ''delimited_utf8.txt'') None)
       = Inl (ValueError
           (py ''latin-1 is either not a valid encoding, or it has not been implemented.''))
   \<and> parse_lines [3, 2] [py ''ab''] []
       = Inl (ValueError (py ''One or more fields are of incorrect length''))"
proof -
  have f: "files (world_with latin_json []) (py ''spec.json'') = Some latin_json"
    by (simp add: world_with_def py_def)
  have j: "json_load (runtime_for latin_json latin_spec) latin_json = Inr latin_spec"
    by (simp add: runtime_for_def)
  have m: "map_int (runtime_for latin_json latin_spec) (Offsets latin_spec) = Inr [3, 2]"
    by (simp add: runtime_for_def latin_spec_def example_spec_def ascii_int_def py_def)
  have n: "length (ColumnNames latin_spec) = length [3, 2 :: int]"
    by (simp add: latin_spec_def example_spec_def)
  have e: "FixedWidthEncoding latin_spec = py ''latin-1''"
    by (simp add: latin_spec_def)
  have d: "py ''latin-1'' \<noteq> py ''windows-1252''" by (simp add: py_def)
  have p: "parse_lines [3, 2] [py ''ab''] [] = Inl (ValueError width_message)"
    by (simp add: parse_line_def replace_with_empty_def py_def LF_def)
  note t = error_messages [OF f j, where nl = None and ints = "[3, 2]"
      and ff = "py ''fixed_width_cp1252.txt''" and df = "py ''delimited_utf8.txt''"]
  from t m n e d have "fst (EncodingProperties_init (runtime_for latin_json latin_spec)
            (world_with latin_json [])
            (py ''spec.json'') (py ''fixed_width_cp1252.txt'') (py ''delimited_utf8.txt'') None)
       = Inl (ValueError
           (py ''latin-1'' @ py '' is either not a valid encoding, or it has not been implemented.''))"
    by simp
  moreover from p have "parse_lines [3, 2] [py ''ab''] []
       = Inl (ValueError (py ''One or more fields are of incorrect length''))"
    by (simp add: width_message_def)
  ultimately show ?thesis using f j m n e by (simp add: py_def)
qed

section \<open>The worked example\<close>

text \<open>
  Against C1 as it is written: the line \<open>"abc 1 "\<close> has six characters and the widths
  3 and 2 add up to five, so the line is refused, the run ends with the \<open>ValueError\<close>
  of the width check and no delimited file is written.
\<close>

theorem six_character_line_is_rejected:
  "parse_line [3, 2] (py ''abc 1 '') = Inl (ValueError width_message)
   \<and> fst (example_run (''abc 1 '' @ [CHR 0x0A]) (Some [LF])) = Inl (ValueError width_message)
   \<and> files (snd (example_run (''abc 1 '' @ [CHR 0x0A]) (Some [LF]))) (py ''delimited_utf8.txt'')
       = None"
  by code_simp

text \<open>
  C1, amended: for the columns \<open>A\<close> of width 3 and \<open>B\<close> of width 2, the five-character
  line \<open>"abc 1"\<close> is decoded to the record \<open>["abc", "1"]\<close>; with the header wanted, the
  comma as delimiter and \<open>"\n"\<close> as terminator, the run writes the texts \<open>"A,B\n"\<close>
  and \<open>"abc,1\n"\<close>, and the delimited file holds \<open>"A,B\nabc,1\n"\<close>. The
  six-character line \<open>"abc 1 "\<close> is refused by the width check.
\<close>

theorem five_character_line_gives_the_example_output:
  "parse_line [3, 2] (py ''abc 1 '') = Inl (ValueError width_message)
   \<and> parse_line [3, 2] (py ''abc 1'') = Inr [py ''abc'', py ''1'']
   \<and> fst (example_run (''abc 1'' @ [CHR 0x0A]) (Some [LF])) = Inr ()
   \<and> files (snd (example_run (''abc 1'' @ [CHR 0x0A]) (Some [LF]))) (py ''delimited_utf8.txt'')
       = Some (''A,B'' @ [CHR 0x0A] @ ''abc,1'' @ [CHR 0x0A])
   \<and> io_log (snd (example_run (''abc 1'' @ [CHR 0x0A]) (Some [LF])))
       = [OpenRead (py ''spec.json''), OpenRead (py ''fixed_width_cp1252.txt''),
          OpenWrite (py ''delimited_utf8.txt''),
          WriteText (py ''delimited_utf8.txt'') (py ''A,B'' @ [LF]),
          WriteText (py ''delimited_utf8.txt'') (py ''abc,1'' @ [LF])]"
  by code_simp

end
